theory Spec2Isabelle
  imports Complex_Main
begin

section \<open>JavaScript values used by the session controller\<close>

text \<open>
  The controller script inspects packet fields with \<^verbatim>\<open>typeof\<close>, \<^verbatim>\<open>== null\<close>,
  \<^verbatim>\<open>===\<close> and \<^verbatim>\<open>Number.isFinite\<close>. Only the shapes those tests distinguish are
  modelled: the two nullish values, numbers (finite or not), and strings.
\<close>

datatype js_number = Finite real | NaN | PosInfinity | NegInfinity

datatype js_value = Undefined | Null | Number js_number | String string

fun isFinite :: "js_number \<Rightarrow> bool" where
  "isFinite (Finite _) = True"
| "isFinite _ = False"

text \<open>\<^verbatim>\<open>x == null\<close> holds for \<^verbatim>\<open>null\<close> and \<^verbatim>\<open>undefined\<close> only.\<close>

fun nullish :: "js_value \<Rightarrow> bool" where
  "nullish Undefined = True"
| "nullish Null = True"
| "nullish _ = False"

text \<open>\<^verbatim>\<open>a === b\<close>: same type and same value, and \<^verbatim>\<open>NaN\<close> differs from itself.\<close>

fun strict_eq :: "js_value \<Rightarrow> js_value \<Rightarrow> bool" where
  "strict_eq (Number NaN) _ = False"
| "strict_eq _ (Number NaN) = False"
| "strict_eq a b = (a = b)"

section \<open>Container inference: \<^verbatim>\<open>isUiLikeContainerSnapshot\<close>\<close>

definition inventoryLike :: "string list" where
  "inventoryLike = [''inventory'', ''hotbar'', ''hotbar_and_inventory'', ''offhand'', ''armor'']"

text \<open>
  The argument object is \<^verbatim>\<open>{ windowId, containerId, dynamicId, size }\<close>. The only call
  site passes \<^verbatim>\<open>Array.isArray(packet.input) ? packet.input.length : 0\<close> for \<^verbatim>\<open>size\<close>,
  a natural number (written \<open>size'\<close> here). The four tests are in the order of the source.
\<close>

definition isUiLikeContainerSnapshot :: "js_value \<Rightarrow> js_value \<Rightarrow> js_value \<Rightarrow> nat \<Rightarrow> bool" where
  "isUiLikeContainerSnapshot windowId containerId dynamicId size' =
     (if size' = 36 then False
      else if (case containerId of String c \<Rightarrow> c \<notin> set inventoryLike | _ \<Rightarrow> False) then True
      else if (case dynamicId of Number n \<Rightarrow> isFinite n | _ \<Rightarrow> False) then True
      else if size' > 0 \<and> size' \<noteq> 36 then True
      else False)"

section \<open>The \<^verbatim>\<open>StateMachine\<close> class\<close>

text \<open>
  \<^verbatim>\<open>ClientState\<close> is the enum of the class; its members carry the enum's name as a
  prefix, since the controller script has an enum \<^verbatim>\<open>State\<close> with members of the same
  names.
\<close>

datatype ClientState =
    ClientState_DISCONNECTED
  | ClientState_CONNECTING
  | ClientState_AUTHENTICATING
  | ClientState_RESOURCE_PACKS
  | ClientState_SPAWNING
  | ClientState_WAITING_COMMANDS
  | ClientState_WAIT_INVENTORY_READY
  | ClientState_READY
  | ClientState_COMMAND_SENT
  | ClientState_WAITING_GUI
  | ClientState_GUI_RECEIVED
  | ClientState_CLICKING_SLOT
  | ClientState_COMPLETED
  | ClientState_ERROR

text \<open>
  The logger receives formatted strings. An entry keeps the values the string is built
  from: \<^verbatim>\<open>logger.error("Invalid transition: " + state + " -> " + newState + ". Allowed: " + ...)\<close>
  becomes \<open>Error_Invalid_transition state newState allowed\<close>, and
  \<^verbatim>\<open>logger.info("State: " + oldState + " -> " + newState + " (" + reason + ")")\<close> becomes
  \<open>Info_State oldState newState reason\<close>.
\<close>

datatype log_entry =
    Error_Invalid_transition ClientState ClientState "ClientState list"
  | Info_State ClientState ClientState string

record StateData =
  sd_commandsAvailable :: bool
  sd_inventoryReady :: bool
  sd_windowId :: js_value
  sd_containerType :: js_value
  sd_containerSlots :: js_value

record StateMachine =
  sm_state :: ClientState
  sm_logger :: "log_entry list"
  sm_stateData :: StateData

text \<open>\<^verbatim>\<open>_buildTransitions\<close>: the table from a state to the list of its allowed successors.\<close>

fun transitions :: "ClientState \<Rightarrow> ClientState list" where
  "transitions ClientState_DISCONNECTED = [ClientState_CONNECTING]"
| "transitions ClientState_CONNECTING = [ClientState_AUTHENTICATING, ClientState_ERROR]"
| "transitions ClientState_AUTHENTICATING =
     [ClientState_RESOURCE_PACKS, ClientState_SPAWNING, ClientState_ERROR]"
| "transitions ClientState_RESOURCE_PACKS = [ClientState_SPAWNING, ClientState_ERROR]"
| "transitions ClientState_SPAWNING =
     [ClientState_WAITING_COMMANDS, ClientState_WAIT_INVENTORY_READY, ClientState_READY,
      ClientState_ERROR]"
| "transitions ClientState_WAITING_COMMANDS = [ClientState_READY, ClientState_ERROR]"
| "transitions ClientState_WAIT_INVENTORY_READY = [ClientState_READY, ClientState_ERROR]"
| "transitions ClientState_READY = [ClientState_COMMAND_SENT, ClientState_ERROR]"
| "transitions ClientState_COMMAND_SENT =
     [ClientState_READY, ClientState_WAITING_GUI, ClientState_ERROR]"
| "transitions ClientState_WAITING_GUI =
     [ClientState_GUI_RECEIVED, ClientState_READY, ClientState_ERROR]"
| "transitions ClientState_GUI_RECEIVED = [ClientState_CLICKING_SLOT, ClientState_ERROR]"
| "transitions ClientState_CLICKING_SLOT = [ClientState_COMPLETED, ClientState_ERROR]"
| "transitions ClientState_COMPLETED = []"
| "transitions ClientState_ERROR = []"

definition initialStateData :: StateData where
  "initialStateData =
     \<lparr>sd_commandsAvailable = False, sd_inventoryReady = False, sd_windowId = Null,
      sd_containerType = Null, sd_containerSlots = Null\<rparr>"

text \<open>The constructor; the logger starts with whatever it has recorded so far.\<close>

definition newStateMachine :: "log_entry list \<Rightarrow> StateMachine" where
  "newStateMachine logger =
     \<lparr>sm_state = ClientState_DISCONNECTED, sm_logger = logger, sm_stateData = initialStateData\<rparr>"

definition canTransition :: "ClientState \<Rightarrow> StateMachine \<Rightarrow> bool" where
  "canTransition newState sm = (newState \<in> set (transitions (sm_state sm)))"

text \<open>\<^verbatim>\<open>transition(newState, reason)\<close> returns its boolean result and the updated object.\<close>

definition transition :: "ClientState \<Rightarrow> string \<Rightarrow> StateMachine \<Rightarrow> bool \<times> StateMachine" where
  "transition newState reason sm =
     (if \<not> canTransition newState sm then
        (False,
         sm\<lparr>sm_logger := sm_logger sm @
            [Error_Invalid_transition (sm_state sm) newState (transitions (sm_state sm))]\<rparr>)
      else
        (let oldState = sm_state sm in
         (True,
          sm\<lparr>sm_state := newState,
             sm_logger := sm_logger sm @ [Info_State oldState newState reason]\<rparr>)))"

definition isReady :: "StateMachine \<Rightarrow> bool" where
  "isReady sm = (sm_state sm = ClientState_READY)"


definition checkReadyState :: "StateMachine \<Rightarrow> StateMachine" where
  "checkReadyState sm =
     (if (sm_state sm = ClientState_WAITING_COMMANDS \<or> sm_state sm = ClientState_SPAWNING \<or>
          sm_state sm = ClientState_WAIT_INVENTORY_READY) \<and>
         sd_commandsAvailable (sm_stateData sm) \<and> sd_inventoryReady (sm_stateData sm)
      then snd (transition ClientState_READY ''Commands & Inventory ready'' sm)
      else sm)"

definition setCommandsAvailable :: "bool \<Rightarrow> StateMachine \<Rightarrow> StateMachine" where
  "setCommandsAvailable available sm =
     checkReadyState (sm\<lparr>sm_stateData := (sm_stateData sm)\<lparr>sd_commandsAvailable := available\<rparr>\<rparr>)"

definition setInventoryReady :: "bool \<Rightarrow> StateMachine \<Rightarrow> StateMachine" where
  "setInventoryReady ready sm =
     checkReadyState (sm\<lparr>sm_stateData := (sm_stateData sm)\<lparr>sd_inventoryReady := ready\<rparr>\<rparr>)"

definition setContainerData :: "js_value \<Rightarrow> js_value \<Rightarrow> StateMachine \<Rightarrow> StateMachine" where
  "setContainerData windowId containerType sm =
     sm\<lparr>sm_stateData := (sm_stateData sm)\<lparr>sd_windowId := windowId,
                                             sd_containerType := containerType\<rparr>\<rparr>"

definition getContainerData :: "StateMachine \<Rightarrow> js_value \<times> js_value" where
  "getContainerData sm = (sd_windowId (sm_stateData sm), sd_containerType (sm_stateData sm))"

definition reset :: "StateMachine \<Rightarrow> StateMachine" where
  "reset sm = sm\<lparr>sm_state := ClientState_DISCONNECTED, sm_stateData := initialStateData\<rparr>"

text \<open>
  The methods of the class that write to the object, as one type of calls, and a run of
  calls in order. The other methods (\<open>canTransition\<close>, \<open>isReady\<close>, \<open>canSendCommand\<close>,
  \<open>getContainerData\<close>) only read.
\<close>

datatype sm_call =
    Call_transition ClientState string
  | Call_setCommandsAvailable bool
  | Call_setInventoryReady bool
  | Call_checkReadyState
  | Call_setContainerData js_value js_value
  | Call_reset

fun apply_call :: "sm_call \<Rightarrow> StateMachine \<Rightarrow> StateMachine" where
  "apply_call (Call_transition newState reason) sm = snd (transition newState reason sm)"
| "apply_call (Call_setCommandsAvailable available) sm = setCommandsAvailable available sm"
| "apply_call (Call_setInventoryReady ready) sm = setInventoryReady ready sm"
| "apply_call Call_checkReadyState sm = checkReadyState sm"
| "apply_call (Call_setContainerData windowId containerType) sm =
     setContainerData windowId containerType sm"
| "apply_call Call_reset sm = reset sm"


section \<open>The controller script: data\<close>

text \<open>
  The script keeps the session in top-level variables and reacts to events of the
  transport client, to timers and to console lines. The variables become one record, every
  function a function from the record to the updated record. Console output is not
  modelled, nor are the two variables that only suppress repeated log lines
  (\<^verbatim>\<open>containerItemsDumpedForWindow\<close>, \<^verbatim>\<open>lastUiCandidateSignature\<close>).
\<close>

datatype State =
    State_CONNECTING
  | State_WAIT_SPAWN
  | State_WAIT_AVAILABLE_COMMANDS
  | State_WAIT_INVENTORY_READY
  | State_READY
  | State_COMMAND_SENT
  | State_WAIT_UI
  | State_CONTAINER_OPENED
  | State_WAIT_CONTAINER_CONTENT
  | State_CLICK_SENT
  | State_DONE

text \<open>
  An item as the transport decodes it: \<^verbatim>\<open>network_id\<close> is always there, the other fields
  may be absent. A slot of an array holds an item, or nothing (\<^verbatim>\<open>null\<close>, \<^verbatim>\<open>undefined\<close>
  or a hole of a sparse array, which all read as a falsy value): \<open>item option\<close>.
\<close>

record item =
  network_id :: int
  count :: "int option"
  metadata :: "int option"
  stack_id :: "int option"

type_synonym items = "item option list"

definition EMPTY_ITEM :: item where
  "EMPTY_ITEM = \<lparr>network_id = 0, count = None, metadata = None, stack_id = None\<rparr>"

definition PLAYER_INVENTORY_WINDOW_ID :: js_value where
  "PLAYER_INVENTORY_WINDOW_ID = Number (Finite 0)"

text \<open>
  One action of a transaction, and the transaction (\<^verbatim>\<open>legacy: { legacy_request_id: 0 }\<close>
  is flattened to its one field).
\<close>

record action =
  source_type :: string
  inventory_id :: js_value
  slot :: int
  old_item :: item
  new_item :: item

record transaction =
  legacy_request_id :: int
  transaction_type :: string
  actions :: "action list"

text \<open>
  The two packets the script sends. The \<^verbatim>\<open>command_request\<close> carries the command line; its
  other fields are constants (origin type \<^verbatim>\<open>"player"\<close>, \<^verbatim>\<open>internal: false\<close>,
  \<^verbatim>\<open>version: "52"\<close>) and a random uuid.
\<close>

datatype packet =
    command_request string
  | inventory_transaction transaction

datatype error = Client_not_connected

record script =
  client :: bool
  state :: State
  availableCommandsSeen :: bool
  inventoryReady :: bool
  inventoryReadyReason :: "string option"
  inventoryReadyFallbackTimer :: bool
  currentWindowId :: js_value
  currentWindowType :: js_value
  currentWindowItems :: "items option"
  playerInventoryItems :: "items option"
  clickSent :: bool
  commandSent :: bool
  autoCommandSent :: bool
  commandSentCount :: nat
  wantConnected :: bool
  reconnectTimer :: "nat option"
  reconnectAttempt :: nat
  pendingReconnectReason :: "string option"
  pendingReconnectDelayMs :: "nat option"
  desiredTakeSlotIndex :: nat
  commandTimers :: nat
  sent :: "packet list"

text \<open>
  \<open>client\<close> is whether the variable holds a client object. A timer variable holds the
  pending timer: \<open>inventoryReadyFallbackTimer\<close> is whether the 15000 ms timer is armed,
  \<open>reconnectTimer\<close> the delay the reconnect timer was started with. The 600 ms timers
  that \<open>onMaybeReady\<close> starts are kept in no variable; \<open>commandTimers\<close> counts those
  still pending. \<open>sent\<close> lists the packets the transport has accepted, oldest first.
\<close>

definition TARGET_COMMAND :: string where
  "TARGET_COMMAND = ''/tpa''"

definition TARGET_SLOT_INDEX :: nat where
  "TARGET_SLOT_INDEX = 16"

definition RECONNECT_BASE_MS :: nat where
  "RECONNECT_BASE_MS = 2000"

definition RECONNECT_MAX_MS :: nat where
  "RECONNECT_MAX_MS = 60000"

text \<open>The variables as the script declares them.\<close>

definition initial :: script where
  "initial =
     \<lparr>client = False, state = State_CONNECTING, availableCommandsSeen = False,
      inventoryReady = False, inventoryReadyReason = None, inventoryReadyFallbackTimer = False,
      currentWindowId = Null, currentWindowType = Null, currentWindowItems = None,
      playerInventoryItems = None, clickSent = False, commandSent = False,
      autoCommandSent = False, commandSentCount = 0, wantConnected = False,
      reconnectTimer = None, reconnectAttempt = 0, pendingReconnectReason = None,
      pendingReconnectDelayMs = None, desiredTakeSlotIndex = TARGET_SLOT_INDEX,
      commandTimers = 0, sent = []\<rparr>"

section \<open>The controller script: strings and arrays\<close>

fun startsWith :: "string \<Rightarrow> string \<Rightarrow> bool" where
  "startsWith s [] = True"
| "startsWith [] (p # ps) = False"
| "startsWith (c # cs) (p # ps) = (c = p \<and> startsWith cs ps)"

text \<open>\<^verbatim>\<open>s.includes(needle)\<close>: the needle starts at some position of \<open>s\<close>.\<close>

fun js_includes :: "string \<Rightarrow> string \<Rightarrow> bool" where
  "js_includes [] needle = (needle = [])"
| "js_includes (c # cs) needle = (startsWith (c # cs) needle \<or> js_includes cs needle)"

text \<open>
  \<^verbatim>\<open>toLowerCase\<close> on the ASCII letters; every other character is kept. (Of the characters
  beyond ASCII, none is lowered to a letter of the phrases the script looks for.)
\<close>

definition toLowerCase_char :: "char \<Rightarrow> char" where
  "toLowerCase_char c =
     (case map_of (zip ''ABCDEFGHIJKLMNOPQRSTUVWXYZ'' ''abcdefghijklmnopqrstuvwxyz'') c of
        Some l \<Rightarrow> l
      | None \<Rightarrow> c)"

definition toLowerCase :: "string \<Rightarrow> string" where
  "toLowerCase s = map toLowerCase_char s"

text \<open>
  \<^verbatim>\<open>xs[i]\<close> reads nothing beyond the end. \<^verbatim>\<open>xs[i] = v\<close> with \<open>i\<close> beyond the end
  extends the array with holes; with a negative integer it sets a property and leaves the
  elements alone. (So does an index of \<open>2 ^ 32 - 1\<close> or more, which no slot number of
  the protocol reaches; the bound is not modelled.)
\<close>

definition array_get :: "items \<Rightarrow> nat \<Rightarrow> item option" where
  "array_get xs i = (if i < length xs then xs ! i else None)"

definition array_set :: "items \<Rightarrow> int \<Rightarrow> item option \<Rightarrow> items" where
  "array_set xs i v =
     (if i < 0 then xs
      else if nat i < length xs then xs[nat i := v]
      else xs @ replicate (nat i - length xs) None @ [v])"

section \<open>The controller script: reconnection\<close>

definition clearReconnectTimer :: "script \<Rightarrow> script" where
  "clearReconnectTimer s = (if reconnectTimer s \<noteq> None then s\<lparr>reconnectTimer := None\<rparr> else s)"

text \<open>The local \<^verbatim>\<open>base\<close> of \<open>scheduleReconnect\<close>, as a function of the attempt counter.\<close>

definition base :: "nat \<Rightarrow> nat" where
  "base attempt = min RECONNECT_MAX_MS (RECONNECT_BASE_MS * 2 ^ min attempt 6)"

text \<open>
  \<^verbatim>\<open>Math.floor(random * 500)\<close>, where \<open>random\<close> is what \<^verbatim>\<open>Math.random()\<close> returned. The
  product is taken in the reals. The double product of the script is the real product
  rounded, which for some arguments reaches the next integer (at 0.018 the script gets 9
  and the real product lies just below 9), so the two jitters can differ by one; both are
  below 500, and the two agree at 0 and at one half, the values that the runs below use.
\<close>

definition jitter :: "real \<Rightarrow> nat" where
  "jitter random = nat \<lfloor>random * 500\<rfloor>"

text \<open>
  \<open>scheduleReconnect random reason delayMs\<close>: \<open>delayMs\<close> is \<open>None\<close> for
  \<^verbatim>\<open>undefined\<close>. The timer is started with \<open>wait\<close>; what its callback does is
  \<open>reconnectTimer_callback\<close> below. \<open>reason\<close> is only printed.

  The line of the source that computes \<open>wait\<close> is
  \<^verbatim>\<open>const wait = Math.max(250, (delayMs ? ? base) + jitter);\<close>. With a blank between the
  two question marks this is not an expression of JavaScript, and the file as it stands
  does not parse. The definition below is the function with that line repaired to
  \<^verbatim>\<open>delayMs ?? base\<close>, the operator that the \<^verbatim>\<open>close\<close> handler applies to the same argument
  (\<^verbatim>\<open>delay ?? undefined\<close>): the delay that the caller passes if there is one, the base
  delay otherwise. Only the value stored in \<open>reconnectTimer\<close> depends on the repair;
  whether a timer is started, and everything else in the script, does not.
\<close>

definition scheduleReconnect :: "real \<Rightarrow> string \<Rightarrow> nat option \<Rightarrow> script \<Rightarrow> script" where
  "scheduleReconnect random reason delayMs s =
     (if \<not> wantConnected s then s
      else if client s then s
      else if reconnectTimer s \<noteq> None then s
      else
        (let attempt = reconnectAttempt s;
             wait = max 250 ((case delayMs of None \<Rightarrow> base attempt | Some d \<Rightarrow> d) + jitter random)
         in s\<lparr>reconnectTimer := Some wait\<rparr>))"

definition setState :: "State \<Rightarrow> script \<Rightarrow> script" where
  "setState next s = (if state s = next then s else s\<lparr>state := next\<rparr>)"

text \<open>
  \<open>connectServer\<close> creates the client and registers the handlers, which are the \<open>on_\<close>
  functions below.
\<close>

definition connectServer :: "script \<Rightarrow> script" where
  "connectServer s =
     (if client s then s
      else setState State_WAIT_SPAWN ((clearReconnectTimer (s\<lparr>wantConnected := True\<rparr>))\<lparr>client := True\<rparr>))"

text \<open>
  \<open>disconnectServer\<close> asks the client to close; the \<^verbatim>\<open>close\<close> event follows as an
  event of its own.
\<close>

definition disconnectServer :: "script \<Rightarrow> script" where
  "disconnectServer s =
     (if \<not> client s then s
      else clearReconnectTimer (s\<lparr>wantConnected := False\<rparr>))"

definition reconnectTimer_callback :: "script \<Rightarrow> script" where
  "reconnectTimer_callback s =
     connectServer (s\<lparr>reconnectTimer := None, reconnectAttempt := reconnectAttempt s + 1\<rparr>)"

section \<open>The controller script: sending\<close>

text \<open>
  \<open>send queue_ok p\<close>: throws without a client; otherwise returns whether
  \<^verbatim>\<open>client.queue\<close> took the packet (\<open>queue_ok\<close>: it did not throw).
\<close>

definition send :: "bool \<Rightarrow> packet \<Rightarrow> script \<Rightarrow> error + (bool \<times> script)" where
  "send queue_ok p s =
     (if \<not> client s then Inl Client_not_connected
      else if queue_ok then Inr (True, s\<lparr>sent := sent s @ [p]\<rparr>)
      else Inr (False, s))"

definition sendCommand :: "bool \<Rightarrow> string \<Rightarrow> script \<Rightarrow> error + script" where
  "sendCommand queue_ok commandLine s =
     (let commandLine = (if \<not> startsWith commandLine ''/'' then ''/'' @ commandLine else commandLine);
          s = s\<lparr>currentWindowId := Null, currentWindowType := Null, currentWindowItems := None,
                clickSent := False\<rparr>
      in case send queue_ok (command_request commandLine) s of
           Inl e \<Rightarrow> Inl e
         | Inr (ok, s) \<Rightarrow>
             if \<not> ok then Inr s
             else Inr (setState State_WAIT_UI (setState State_COMMAND_SENT
                    (s\<lparr>commandSent := True, commandSentCount := commandSentCount s + 1\<rparr>))))"

definition canSendCommands :: "script \<Rightarrow> bool" where
  "canSendCommands s = (client s \<and> availableCommandsSeen s)"

section \<open>The controller script: readiness\<close>

definition onMaybeReady :: "script \<Rightarrow> script" where
  "onMaybeReady s =
     (let s = (if availableCommandsSeen s \<and> inventoryReady s \<and> state s \<noteq> State_READY \<and>
                  state s \<noteq> State_WAIT_UI \<and> state s \<noteq> State_COMMAND_SENT
               then setState State_READY s else s)
      in if state s = State_READY \<and> \<not> commandSent s
         then s\<lparr>commandTimers := commandTimers s + 1\<rparr>
         else s)"

text \<open>The callback of the 600 ms timer that \<open>onMaybeReady\<close> starts.\<close>

definition commandTimer_callback :: "bool \<Rightarrow> script \<Rightarrow> error + script" where
  "commandTimer_callback queue_ok s =
     (if state s \<noteq> State_READY \<or> autoCommandSent s then Inr s
      else case sendCommand queue_ok TARGET_COMMAND s of
             Inl e \<Rightarrow> Inl e
           | Inr s \<Rightarrow> Inr (s\<lparr>autoCommandSent := True\<rparr>))"

definition markInventoryReady :: "string \<Rightarrow> script \<Rightarrow> script" where
  "markInventoryReady reason s =
     (if inventoryReady s then s
      else
        (let s = s\<lparr>inventoryReady := True, inventoryReadyReason := Some reason\<rparr>;
             s = (if inventoryReadyFallbackTimer s then s\<lparr>inventoryReadyFallbackTimer := False\<rparr>
                  else s);
             s = (if state s = State_WAIT_INVENTORY_READY then setState State_READY s else s)
         in onMaybeReady s))"

text \<open>
  The callback of the 15000 ms timer that \<open>armInventoryReadyFallback\<close> starts. The
  variable \<open>inventoryReadyFallbackTimer\<close> stands for the pending timer: it is set when
  the timer is started, which needs \<open>inventoryReady\<close> to be clear, and it is cleared by
  \<open>markInventoryReady\<close>, the only function that sets \<open>inventoryReady\<close>; so the
  callback finds \<open>inventoryReady\<close> clear and clears the variable through
  \<open>markInventoryReady\<close>. The \<^verbatim>\<open>close\<close> handler clears \<open>inventoryReady\<close> and leaves
  the timer pending.
\<close>

definition inventoryReadyFallbackTimer_callback :: "script \<Rightarrow> script" where
  "inventoryReadyFallbackTimer_callback s =
     (if inventoryReady s then s else markInventoryReady ''fallback timeout'' s)"

definition armInventoryReadyFallback :: "script \<Rightarrow> script" where
  "armInventoryReadyFallback s =
     (if inventoryReady s \<or> inventoryReadyFallbackTimer s then s
      else s\<lparr>inventoryReadyFallbackTimer := True\<rparr>)"

section \<open>The controller script: window ids and slots\<close>

text \<open>
  The handlers pass every \<^verbatim>\<open>window_id\<close> through \<open>normalizeWindowId\<close> first, which turns
  numeric strings, big integers and the protocol's window names into numbers and returns
  everything else as it is. Window ids are the normalised values here, on which a second
  \<open>normalizeWindowId\<close> (the one in \<open>isPlayerInventoryWindowId\<close>) is the identity.
\<close>

definition isPlayerInventoryWindowId :: "js_value \<Rightarrow> bool" where
  "isPlayerInventoryWindowId windowId =
     (let id = windowId
      in strict_eq id (Number (Finite 0)) \<or> strict_eq id (Number (Finite 1)) \<or>
         strict_eq id (Number (Finite 2)) \<or> strict_eq id (Number (Finite 119)) \<or>
         strict_eq id (Number (Finite 120)))"

fun isEmptyItem :: "item option \<Rightarrow> bool" where
  "isEmptyItem None = True"
| "isEmptyItem (Some item) = (network_id item = 0)"

text \<open>The loop of \<open>findFirstEmptyPlayerSlot\<close>, from index \<open>i\<close> on, over the rest of the array.\<close>

fun findFirstEmpty_loop :: "nat \<Rightarrow> items \<Rightarrow> nat option" where
  "findFirstEmpty_loop i [] = None"
| "findFirstEmpty_loop i (x # xs) = (if isEmptyItem x then Some i else findFirstEmpty_loop (Suc i) xs)"

definition findFirstEmptyPlayerSlot :: "script \<Rightarrow> nat option" where
  "findFirstEmptyPlayerSlot s =
     (case playerInventoryItems s of
        None \<Rightarrow> None
      | Some xs \<Rightarrow> findFirstEmpty_loop 0 xs)"

section \<open>The controller script: the slot transaction\<close>

definition buildNormalClickTransaction :: "js_value \<Rightarrow> int \<Rightarrow> item \<Rightarrow> transaction" where
  "buildNormalClickTransaction windowId slotIndex item =
     \<lparr>legacy_request_id = 0, transaction_type = ''normal'',
      actions =
        [\<lparr>source_type = ''container'', inventory_id = windowId, slot = slotIndex,
          old_item = item, new_item = item\<rparr>]\<rparr>"

definition buildMoveToInventoryTransaction :: "js_value \<Rightarrow> int \<Rightarrow> int \<Rightarrow> item \<Rightarrow> transaction" where
  "buildMoveToInventoryTransaction windowId fromSlot toSlot item =
     \<lparr>legacy_request_id = 0, transaction_type = ''normal'',
      actions =
        [\<lparr>source_type = ''container'', inventory_id = windowId, slot = fromSlot,
          old_item = item, new_item = EMPTY_ITEM\<rparr>,
         \<lparr>source_type = ''container'', inventory_id = PLAYER_INVENTORY_WINDOW_ID, slot = toSlot,
          old_item = EMPTY_ITEM, new_item = item\<rparr>]\<rparr>"

text \<open>
  \<open>clickSlot queue_ok windowId slotIndex\<close>. \<open>slotIndex\<close> is an integer (both callers
  have checked \<^verbatim>\<open>Number.isInteger\<close>); the test for a negative one is the source's.
\<close>

definition clickSlot :: "bool \<Rightarrow> js_value \<Rightarrow> int \<Rightarrow> script \<Rightarrow> error + script" where
  "clickSlot queue_ok windowId slotIndex s =
     (if clickSent s then Inr s
      else if state s \<noteq> State_WAIT_CONTAINER_CONTENT then Inr s
      else if currentWindowItems s = None then Inr s
      else if nullish (currentWindowId s) \<or> \<not> strict_eq windowId (currentWindowId s) then Inr s
      else if slotIndex < 0 then Inr s
      else
        (case array_get (the (currentWindowItems s)) (nat slotIndex) of
           None \<Rightarrow> Inr s
         | Some item \<Rightarrow>
             if isEmptyItem (Some item) then Inr s
             else
               (let destSlot = findFirstEmptyPlayerSlot s;
                    tx = (case destSlot of
                            Some toSlot \<Rightarrow>
                              buildMoveToInventoryTransaction windowId slotIndex (int toSlot) item
                          | None \<Rightarrow> buildNormalClickTransaction windowId slotIndex item)
                in (case send queue_ok (inventory_transaction tx) s of
                      Inl e \<Rightarrow> Inl e
                    | Inr (ok, s) \<Rightarrow>
                        if \<not> ok then Inr s
                        else Inr (setState State_CLICK_SENT (s\<lparr>clickSent := True\<rparr>))))))"

definition maybeTakeDesiredSlot :: "bool \<Rightarrow> script \<Rightarrow> error + script" where
  "maybeTakeDesiredSlot queue_ok s =
     (if nullish (currentWindowId s) then Inr s
      else case currentWindowItems s of
        None \<Rightarrow> Inr s
      | Some windowItems \<Rightarrow>
          if desiredTakeSlotIndex s \<ge> length windowItems then Inr s
          else
            (let s = (if state s \<noteq> State_WAIT_CONTAINER_CONTENT
                      then setState State_WAIT_CONTAINER_CONTENT s else s)
             in clickSlot queue_ok (currentWindowId s) (int (desiredTakeSlotIndex s)) s))"

definition tryTakeFromOpenContainer :: "bool \<Rightarrow> int \<Rightarrow> script \<Rightarrow> error + script" where
  "tryTakeFromOpenContainer queue_ok slotIndex s =
     (if nullish (currentWindowId s) then Inr s
      else if slotIndex < 0 then Inr s
      else case currentWindowItems s of
        Some windowItems \<Rightarrow>
          (let s = (if state s \<noteq> State_WAIT_CONTAINER_CONTENT
                    then setState State_WAIT_CONTAINER_CONTENT s else s);
               s = s\<lparr>clickSent := False\<rparr>
           in clickSlot queue_ok (currentWindowId s) slotIndex s)
      | None \<Rightarrow> Inr (setState State_WAIT_CONTAINER_CONTENT s))"

section \<open>The controller script: the handlers of the client's events\<close>

text \<open>
  \<open>on_error random msg\<close>: \<open>msg\<close> is \<^verbatim>\<open>String(err?.message || err)\<close>; \<open>random\<close> is
  what \<^verbatim>\<open>Math.random()\<close> returns if \<open>scheduleReconnect\<close> gets to ask.
\<close>

definition on_error :: "real \<Rightarrow> string \<Rightarrow> script \<Rightarrow> script" where
  "on_error random msg s =
     (if js_includes msg ''Read error'' \<or> js_includes msg ''Invalid tag'' then s
      else if js_includes (toLowerCase msg) ''connect timed out'' then
        (let s = s\<lparr>client := False\<rparr>;
             s = setState State_CONNECTING s;
             s = scheduleReconnect random ''connect timeout'' (pendingReconnectDelayMs s) s
         in s\<lparr>pendingReconnectDelayMs := None\<rparr>)
      else s)"

text \<open>
  \<open>on_kick message\<close>: \<open>message\<close> is \<^verbatim>\<open>reason?.message\<close>, \<open>None\<close> when it is absent.
  The handler asks the client to close; the \<^verbatim>\<open>close\<close> event follows as an event of its
  own.
\<close>

definition on_kick :: "string option \<Rightarrow> script \<Rightarrow> script" where
  "on_kick message s =
     (let msg = (case message of None \<Rightarrow> '''' | Some m \<Rightarrow> m);
          s = s\<lparr>pendingReconnectReason :=
                  Some (''kicked: '' @ (if msg = '''' then ''unknown'' else msg))\<rparr>;
          s = (if js_includes (toLowerCase msg) ''already online''
               then s\<lparr>pendingReconnectDelayMs := Some 30000\<rparr> else s)
      in setState State_CONNECTING s)"

definition on_close :: "real \<Rightarrow> script \<Rightarrow> script" where
  "on_close random s =
     (let s = s\<lparr>client := False, availableCommandsSeen := False, inventoryReady := False,
                inventoryReadyReason := None, currentWindowId := Null, currentWindowType := Null,
                currentWindowItems := None, playerInventoryItems := None, clickSent := False,
                commandSent := False, autoCommandSent := False, commandSentCount := 0\<rparr>;
          reason = (case pendingReconnectReason s of None \<Rightarrow> ''closed'' | Some r \<Rightarrow>
                      if r = '''' then ''closed'' else r);
          delay = pendingReconnectDelayMs s;
          s = s\<lparr>pendingReconnectReason := None, pendingReconnectDelayMs := None\<rparr>;
          s = setState State_CONNECTING s
      in scheduleReconnect random reason delay s)"

definition on_spawn :: "script \<Rightarrow> script" where
  "on_spawn s = onMaybeReady (setState State_WAIT_AVAILABLE_COMMANDS s)"

definition on_start_game :: "script \<Rightarrow> script" where
  "on_start_game s = (if \<not> inventoryReady s then markInventoryReady ''start_game'' s else s)"

definition on_available_commands :: "script \<Rightarrow> script" where
  "on_available_commands s =
     (let s = s\<lparr>availableCommandsSeen := True\<rparr>;
          s = (if state s = State_WAIT_AVAILABLE_COMMANDS
               then armInventoryReadyFallback (setState State_WAIT_INVENTORY_READY s)
               else s)
      in onMaybeReady s)"

text \<open>
  \<open>on_inventory_content queue_ok windowId containerId dynamicId input\<close>: \<open>windowId\<close> is
  the normalised \<^verbatim>\<open>packet.window_id\<close>, the two hints are
  \<^verbatim>\<open>packet?.container?.container_id\<close> and \<^verbatim>\<open>packet?.container?.dynamic_container_id\<close>,
  and \<open>input\<close> is \<^verbatim>\<open>packet.input\<close>. The packet decoder delivers an array of items
  there; a value that is not an array is represented by \<open>None\<close>, also where the handler
  stores it in \<open>currentWindowItems\<close>.
\<close>

definition on_inventory_content ::
  "bool \<Rightarrow> js_value \<Rightarrow> js_value \<Rightarrow> js_value \<Rightarrow> items option \<Rightarrow> script \<Rightarrow> error + script" where
  "on_inventory_content queue_ok windowId containerId dynamicId input s =
     (if nullish windowId then Inr s
      else
        (let size' = (case input of Some xs \<Rightarrow> length xs | None \<Rightarrow> 0);
             s = (if state s = State_WAIT_UI \<and> nullish (currentWindowId s) then
                    (let looksUi = isUiLikeContainerSnapshot windowId containerId dynamicId size'
                     in if \<not> isPlayerInventoryWindowId windowId \<or> looksUi then
                          setState State_WAIT_CONTAINER_CONTENT (setState State_CONTAINER_OPENED
                            (s\<lparr>currentWindowId := windowId, currentWindowType := Null,
                               currentWindowItems := None, clickSent := False\<rparr>))
                        else s)
                  else s);
             s = (if \<not> inventoryReady s \<and> isPlayerInventoryWindowId windowId
                  then markInventoryReady ''inventory_content (player)'' s else s);
             s = (if strict_eq windowId PLAYER_INVENTORY_WINDOW_ID \<and> input \<noteq> None
                  then s\<lparr>playerInventoryItems := input\<rparr> else s)
         in if \<not> nullish (currentWindowId s) \<and> strict_eq windowId (currentWindowId s) then
              (let s = s\<lparr>currentWindowItems := input\<rparr>;
                   s = (if state s = State_CONTAINER_OPENED \<or> state s = State_WAIT_UI
                        then setState State_WAIT_CONTAINER_CONTENT s else s)
               in maybeTakeDesiredSlot queue_ok s)
            else Inr s))"

text \<open>
  \<open>on_inventory_slot queue_ok windowId slot item\<close>: \<open>slot\<close> is \<^verbatim>\<open>packet?.slot\<close> when
  \<^verbatim>\<open>Number.isInteger\<close> accepts it and \<open>None\<close> otherwise; \<open>item\<close> is \<^verbatim>\<open>packet.item\<close>.
\<close>

definition on_inventory_slot ::
  "bool \<Rightarrow> js_value \<Rightarrow> int option \<Rightarrow> item option \<Rightarrow> script \<Rightarrow> error + script" where
  "on_inventory_slot queue_ok windowId slot' item s =
     (if nullish windowId then Inr s
      else
        (let s = (if \<not> inventoryReady s \<and> strict_eq windowId (Number (Finite 0))
                  then markInventoryReady ''inventory_slot (player)'' s else s);
             s = (if strict_eq windowId PLAYER_INVENTORY_WINDOW_ID \<and> slot' \<noteq> None then
                    s\<lparr>playerInventoryItems :=
                        Some (array_set (case playerInventoryItems s of None \<Rightarrow> [] | Some xs \<Rightarrow> xs)
                                (the slot') item)\<rparr>
                  else s);
             r = (if \<not> nullish (currentWindowId s) \<and> strict_eq windowId (currentWindowId s) \<and>
                     slot' \<noteq> None then
                    (let s = s\<lparr>currentWindowItems :=
                                 Some (array_set (case currentWindowItems s of None \<Rightarrow> [] | Some xs \<Rightarrow> xs)
                                         (the slot') item)\<rparr>
                     in if state s = State_WAIT_CONTAINER_CONTENT \<and> \<not> clickSent s \<and>
                           the slot' = int (desiredTakeSlotIndex s)
                        then maybeTakeDesiredSlot queue_ok s else Inr s)
                  else Inr s)
         in (case r of
               Inl e \<Rightarrow> Inl e
             | Inr s \<Rightarrow>
                 Inr (if state s = State_WAIT_INVENTORY_READY \<and> \<not> inventoryReady s
                      then armInventoryReadyFallback s else s))))"

definition on_container_open :: "js_value \<Rightarrow> js_value \<Rightarrow> script \<Rightarrow> script" where
  "on_container_open windowId windowType s =
     setState State_WAIT_CONTAINER_CONTENT (setState State_CONTAINER_OPENED
       (s\<lparr>currentWindowId := windowId, currentWindowType := windowType,
          currentWindowItems := None, clickSent := False\<rparr>))"

definition on_container_close :: "js_value \<Rightarrow> script \<Rightarrow> script" where
  "on_container_close closedId s =
     (if strict_eq closedId (currentWindowId s) then
        (let s = s\<lparr>currentWindowId := Null, currentWindowType := Null, currentWindowItems := None\<rparr>
         in if state s = State_CLICK_SENT then setState State_DONE s else s)
      else s)"

section \<open>The controller script: console lines\<close>

text \<open>
  The console handler parses a line and calls the functions above. \<open>line_take n\<close> is
  \<^verbatim>\<open>take\<close> (\<open>n = None\<close>: the slot is \<open>desiredTakeSlotIndex\<close>) or \<^verbatim>\<open>take n\<close> with a valid
  index; \<open>line_tpa player n\<close> is \<^verbatim>\<open>tpa [player] [slot n]\<close>, \<open>n = None\<close> when no valid
  index is given; a line with an invalid index only prints the usage.
\<close>

definition line_take :: "bool \<Rightarrow> nat option \<Rightarrow> script \<Rightarrow> error + script" where
  "line_take queue_ok n s =
     (let n = (case n of None \<Rightarrow> desiredTakeSlotIndex s | Some n \<Rightarrow> n);
          s = s\<lparr>desiredTakeSlotIndex := n\<rparr>
      in tryTakeFromOpenContainer queue_ok (int (desiredTakeSlotIndex s)) s)"

definition line_cmd :: "bool \<Rightarrow> string \<Rightarrow> script \<Rightarrow> error + script" where
  "line_cmd queue_ok cmd s = (if canSendCommands s then sendCommand queue_ok cmd s else Inr s)"

definition line_tpa :: "bool \<Rightarrow> string \<Rightarrow> nat option \<Rightarrow> script \<Rightarrow> error + script" where
  "line_tpa queue_ok player n s =
     (let s = (case n of None \<Rightarrow> s | Some n \<Rightarrow> s\<lparr>desiredTakeSlotIndex := n\<rparr>);
          cmdLine = (if player \<noteq> '''' then ''/tpa '' @ player else TARGET_COMMAND)
      in if canSendCommands s then sendCommand queue_ok cmdLine s else Inr s)"

section \<open>The controller script: events\<close>

datatype event =
    Line_connect
  | Line_disconnect
  | Line_slot nat
  | Line_take "nat option"
  | Line_tpa string "nat option"
  | Line_cmd string
  | Line_state
  | Client_error string
  | Client_kick "string option"
  | Client_close
  | Client_spawn
  | Client_start_game
  | Client_available_commands
  | Client_inventory_content js_value js_value js_value "items option"
  | Client_inventory_slot js_value "int option" "item option"
  | Client_container_open js_value js_value
  | Client_container_close js_value
  | Client_modal_form_request
  | Client_text
  | Timeout_reconnect
  | Timeout_inventoryReadyFallback
  | Timeout_command

text \<open>
  One event, with what the environment decides while its handler runs: whether
  \<^verbatim>\<open>client.queue\<close> takes a packet, and what \<^verbatim>\<open>Math.random()\<close> returns. A timer fires
  only while it is pending. An exception that leaves a handler ends the run.
\<close>

fun step :: "bool \<times> real \<times> event \<Rightarrow> script \<Rightarrow> error + script" where
  "step (queue_ok, random, Line_connect) s = Inr (connectServer s)"
| "step (queue_ok, random, Line_disconnect) s = Inr (disconnectServer s)"
| "step (queue_ok, random, Line_slot n) s = Inr (s\<lparr>desiredTakeSlotIndex := n\<rparr>)"
| "step (queue_ok, random, Line_take n) s = line_take queue_ok n s"
| "step (queue_ok, random, Line_tpa player n) s = line_tpa queue_ok player n s"
| "step (queue_ok, random, Line_cmd cmd) s = line_cmd queue_ok cmd s"
| "step (queue_ok, random, Line_state) s = Inr s"
| "step (queue_ok, random, Client_error msg) s = Inr (on_error random msg s)"
| "step (queue_ok, random, Client_kick message) s = Inr (on_kick message s)"
| "step (queue_ok, random, Client_close) s = Inr (on_close random s)"
| "step (queue_ok, random, Client_spawn) s = Inr (on_spawn s)"
| "step (queue_ok, random, Client_start_game) s = Inr (on_start_game s)"
| "step (queue_ok, random, Client_available_commands) s = Inr (on_available_commands s)"
| "step (queue_ok, random, Client_inventory_content windowId containerId dynamicId input) s =
     on_inventory_content queue_ok windowId containerId dynamicId input s"
| "step (queue_ok, random, Client_inventory_slot windowId slot' item) s =
     on_inventory_slot queue_ok windowId slot' item s"
| "step (queue_ok, random, Client_container_open windowId windowType) s =
     Inr (on_container_open windowId windowType s)"
| "step (queue_ok, random, Client_container_close closedId) s =
     Inr (on_container_close closedId s)"
| "step (queue_ok, random, Client_modal_form_request) s = Inr s"
| "step (queue_ok, random, Client_text) s = Inr s"
| "step (queue_ok, random, Timeout_reconnect) s =
     Inr (if reconnectTimer s = None then s else reconnectTimer_callback s)"
| "step (queue_ok, random, Timeout_inventoryReadyFallback) s =
     Inr (if \<not> inventoryReadyFallbackTimer s then s else inventoryReadyFallbackTimer_callback s)"
| "step (queue_ok, random, Timeout_command) s =
     (if commandTimers s = 0 then Inr s
      else commandTimer_callback queue_ok (s\<lparr>commandTimers := commandTimers s - 1\<rparr>))"

fun run :: "(bool \<times> real \<times> event) list \<Rightarrow> script \<Rightarrow> error + script" where
  "run [] s = Inr s"
| "run (x # xs) s = (case step x s of Inl e \<Rightarrow> Inl e | Inr s' \<Rightarrow> run xs s')"

section \<open>Classes of events\<close>









section \<open>Properties of the container inference\<close>

text \<open>
  C3: a snapshot of exactly 36 slots is never classified as a foreign UI, whatever the
  window id, the container id hint and the dynamic id hint are.
\<close>

theorem isUiLikeContainerSnapshot_36:
  "isUiLikeContainerSnapshot windowId containerId dynamicId 36 = False"
  by (simp add: isUiLikeContainerSnapshot_def)

text \<open>
  C2 (as stated): every snapshot with a numeric dynamic id hint is classified as a foreign
  UI, with no condition on the slot count. The size test comes first in the source, so the
  statement fails for a 36-slot snapshot that carries a dynamic id.
\<close>

theorem isUiLikeContainerSnapshot_dynamicId_counterexample:
  "isUiLikeContainerSnapshot (Number (Finite 0)) Undefined (Number (Finite 7)) 36 = False"
  by (simp add: isUiLikeContainerSnapshot_def)

text \<open>
  C2 (amended): every snapshot whose dynamic id hint is a finite number and whose slot
  count is not 36 is classified as a foreign UI, whatever the container id hint is.
\<close>

theorem isUiLikeContainerSnapshot_dynamicId:
  "size' \<noteq> 36 \<Longrightarrow> isFinite n \<Longrightarrow>
     isUiLikeContainerSnapshot windowId containerId (Number n) size' = True"
  by (simp add: isUiLikeContainerSnapshot_def)

theorem isUiLikeContainerSnapshot_dynamicId_witness:
  "(0::nat) \<noteq> 36 \<and> isFinite (Finite 3) \<and>
     isUiLikeContainerSnapshot (Number (Finite 0)) (String ''inventory'') (Number (Finite 3)) 0 = True"
  using isUiLikeContainerSnapshot_dynamicId [of 0 "Finite 3" "Number (Finite 0)" "String ''inventory''"]
  by simp

section \<open>Properties of the \<^verbatim>\<open>StateMachine\<close> class\<close>

text \<open>
  C8: when the requested target is not among the allowed successors of the current
  state, \<open>transition\<close> appends one error entry naming the current state and the target,
  returns false, and changes nothing else: the state is the one before the call.
\<close>

theorem transition_illegal:
  "t \<notin> set (transitions (sm_state sm)) \<Longrightarrow>
     transition t reason sm =
       (False, sm\<lparr>sm_logger := sm_logger sm @
                  [Error_Invalid_transition (sm_state sm) t (transitions (sm_state sm))]\<rparr>) \<and>
     sm_state (snd (transition t reason sm)) = sm_state sm \<and>
     sm_stateData (snd (transition t reason sm)) = sm_stateData sm"
  by (simp add: transition_def canTransition_def)

theorem transition_illegal_witness:
  "ClientState_READY \<notin> set (transitions (sm_state (newStateMachine []))) \<and>
   transition ClientState_READY ''early'' (newStateMachine []) =
     (False, (newStateMachine [])\<lparr>sm_logger :=
        [Error_Invalid_transition ClientState_DISCONNECTED ClientState_READY
           [ClientState_CONNECTING]]\<rparr>) \<and>
   sm_state (snd (transition ClientState_READY ''early'' (newStateMachine []))) =
     ClientState_DISCONNECTED"
  using transition_illegal [of ClientState_READY "newStateMachine []" "''early''"]
  by (simp add: newStateMachine_def)

text \<open>
  C10: \<open>COMPLETED\<close> and \<open>ERROR\<close> have no allowed successor. In either state
  \<open>transition\<close> returns false for every target and keeps the state, and so does every
  writing method other than \<open>reset\<close>; \<open>reset\<close> puts the machine in \<open>DISCONNECTED\<close>
  with every field of \<open>stateData\<close> back at its initial value.
\<close>

theorem terminal_states_absorbing:
  "sm_state sm = ClientState_COMPLETED \<or> sm_state sm = ClientState_ERROR \<Longrightarrow>
     transitions (sm_state sm) = [] \<and>
     fst (transition t reason sm) = False \<and>
     sm_state (snd (transition t reason sm)) = sm_state sm \<and>
     (c \<noteq> Call_reset \<longrightarrow> sm_state (apply_call c sm) = sm_state sm) \<and>
     sm_state (reset sm) = ClientState_DISCONNECTED \<and>
     sm_stateData (reset sm) =
       \<lparr>sd_commandsAvailable = False, sd_inventoryReady = False, sd_windowId = Null,
        sd_containerType = Null, sd_containerSlots = Null\<rparr>"
proof -
  assume terminal: "sm_state sm = ClientState_COMPLETED \<or> sm_state sm = ClientState_ERROR"
  from terminal have none: "transitions (sm_state sm) = []"
    by auto
  have tr: "transition t' r' sm =
      (False, sm\<lparr>sm_logger := sm_logger sm @ [Error_Invalid_transition (sm_state sm) t' []]\<rparr>)"
    for t' r'
    using none by (simp add: transition_def canTransition_def)
  have chk: "checkReadyState sm' = sm'" if "sm_state sm' = sm_state sm" for sm'
    using terminal that by (auto simp: checkReadyState_def)
  have other: "sm_state (apply_call c sm) = sm_state sm" if "c \<noteq> Call_reset"
    using that
    by (cases c)
       (simp_all add: tr chk setCommandsAvailable_def setInventoryReady_def
          setContainerData_def)
  show ?thesis
    using none other by (simp add: tr reset_def initialStateData_def)
qed

theorem terminal_states_absorbing_witness:
  "(let sm = (newStateMachine [])\<lparr>sm_state := ClientState_ERROR,
        sm_stateData := initialStateData\<lparr>sd_commandsAvailable := True, sd_inventoryReady := True\<rparr>\<rparr>
    in (sm_state sm = ClientState_COMPLETED \<or> sm_state sm = ClientState_ERROR) \<and>
       fst (transition ClientState_CONNECTING ''retry'' sm) = False \<and>
       sm_state (snd (transition ClientState_CONNECTING ''retry'' sm)) = ClientState_ERROR \<and>
       sm_state (apply_call (Call_setInventoryReady True) sm) = ClientState_ERROR \<and>
       sm_state (reset sm) = ClientState_DISCONNECTED \<and>
       sm_stateData (reset sm) = initialStateData)"
  using terminal_states_absorbing
    [of "(newStateMachine [])\<lparr>sm_state := ClientState_ERROR,
          sm_stateData := initialStateData\<lparr>sd_commandsAvailable := True, sd_inventoryReady := True\<rparr>\<rparr>"
        ClientState_CONNECTING "''retry''" "Call_setInventoryReady True"]
  by (simp add: Let_def newStateMachine_def initialStateData_def)

section \<open>Properties of the reconnection delay\<close>

lemma jitter_bound: "0 \<le> random \<Longrightarrow> random < 1 \<Longrightarrow> jitter random < 500"
proof -
  assume "0 \<le> random" "random < 1"
  then have "random * 500 < 500" by simp
  then have "\<lfloor>random * 500\<rfloor> < 500" by (simp add: floor_less_iff)
  then show ?thesis unfolding jitter_def by linarith
qed

lemma base_small: "a \<le> 6 \<Longrightarrow> base a = min 60000 (2000 * 2 ^ a)"
  by (simp add: base_def RECONNECT_MAX_MS_def RECONNECT_BASE_MS_def min_absorb1)

lemma base_large: "7 \<le> a \<Longrightarrow> base a = 60000"
  by (simp add: base_def RECONNECT_MAX_MS_def RECONNECT_BASE_MS_def min_absorb2)

lemma base_mono: "a \<le> b \<Longrightarrow> base a \<le> base b"
  unfolding base_def
  by (intro min.mono mult_le_mono power_increasing) auto

lemma base_not_30000: "base a \<noteq> 30000"
proof -
  have "a = 0 \<or> a = 1 \<or> a = 2 \<or> a = 3 \<or> a = 4 \<or> a = 5 \<or> a = 6 \<or> 7 \<le> a"
    by arith
  then show ?thesis
    by (auto simp: base_def RECONNECT_MAX_MS_def RECONNECT_BASE_MS_def min_absorb2)
qed

text \<open>
  C5, for \<open>scheduleReconnect\<close> with the line of \<open>wait\<close> repaired to
  \<^verbatim>\<open>delayMs ?? base\<close> (the line as shipped, \<^verbatim>\<open>delayMs ? ? base\<close>, does not parse, so that
  the file as shipped computes no delay at all): when a reconnect is wanted, no client
  exists, no timer is pending and no delay is passed, \<open>scheduleReconnect\<close> starts the
  timer with
  \<open>max 250 (min 60000 (2000 * 2 ^ min a 6) + j)\<close>, where \<open>a\<close> is the attempt counter and
  \<open>j\<close> is some jitter below 500 (\<^verbatim>\<open>Math.random()\<close> returns a number from 0 up to, not
  including, 1). The base delay is \<open>2000 * 2 ^ a\<close> capped at 60000 for \<open>a\<close> up to 6, it is
  60000 from 7 on, and it never decreases as \<open>a\<close> grows.
\<close>

theorem scheduleReconnect_backoff:
  assumes "wantConnected s" "\<not> client s" "reconnectTimer s = None"
    and "0 \<le> random" "random < 1"
  shows "(\<exists>j<500. reconnectTimer (scheduleReconnect random reason None s) =
            Some (max 250 (min 60000 (2000 * 2 ^ min (reconnectAttempt s) 6) + j))) \<and>
         (\<forall>a\<le>6. base a = min 60000 (2000 * 2 ^ a)) \<and>
         (\<forall>a\<ge>7. base a = 60000) \<and>
         (\<forall>a b. a \<le> b \<longrightarrow> base a \<le> base b)"
proof -
  have "reconnectTimer (scheduleReconnect random reason None s) =
      Some (max 250 (min 60000 (2000 * 2 ^ min (reconnectAttempt s) 6) + jitter random))"
    using assms(1-3)
    by (simp add: scheduleReconnect_def Let_def base_def RECONNECT_MAX_MS_def
        RECONNECT_BASE_MS_def)
  with jitter_bound [OF assms(4,5)] show ?thesis
    using base_small base_large base_mono by blast
qed

text \<open>
  The witness: the state in which the \<^verbatim>\<open>close\<close> handler of the first connection calls
  \<open>scheduleReconnect\<close> (a connection is wanted, the client is gone, the counter is 0),
  with \<^verbatim>\<open>Math.random()\<close> returning one half: the delay is 2000 + 250.
\<close>

theorem scheduleReconnect_backoff_witness:
  "wantConnected ((connectServer initial)\<lparr>client := False\<rparr>) \<and>
   \<not> client ((connectServer initial)\<lparr>client := False\<rparr>) \<and>
   reconnectTimer ((connectServer initial)\<lparr>client := False\<rparr>) = None \<and>
   reconnectTimer (scheduleReconnect (1 / 2) ''closed'' None
     ((connectServer initial)\<lparr>client := False\<rparr>)) = Some 2250 \<and>
   base 3 = 16000 \<and> base 5 = 60000 \<and> base 9 = 60000"
proof -
  let ?s = "(connectServer initial)\<lparr>client := False\<rparr>"
  have h: "wantConnected ?s" "\<not> client ?s" "reconnectTimer ?s = None"
    by (simp_all add: connectServer_def initial_def setState_def clearReconnectTimer_def)
  have a: "reconnectAttempt ?s = 0"
    by (simp add: connectServer_def initial_def setState_def clearReconnectTimer_def)
  have j: "jitter (1 / 2) = 250"
    by (simp add: jitter_def)
  have r: "(0::real) \<le> 1 / 2" "(1::real) / 2 < 1"
    by simp_all
  from scheduleReconnect_backoff [OF h r, of "''closed''"]
  have b: "base 3 = min 60000 (2000 * 2 ^ 3)" "base 5 = min 60000 (2000 * 2 ^ 5)"
    "base 9 = 60000"
    by simp_all
  have t: "reconnectTimer (scheduleReconnect (1 / 2) ''closed'' None ?s) = Some 2250"
    using h a by (simp add: scheduleReconnect_def Let_def j base_def
        RECONNECT_MAX_MS_def RECONNECT_BASE_MS_def)
  show ?thesis
    using h t b by simp
qed

text \<open>
  While the script holds a client, no reconnect timer is pending: \<open>connectServer\<close> clears
  the timer before it creates the client, and \<open>scheduleReconnect\<close> starts one only when
  there is no client.
\<close>

lemma conn_basic:
  "client (setState next s) = client s"
  "reconnectTimer (setState next s) = reconnectTimer s"
  "client (onMaybeReady s) = client s"
  "reconnectTimer (onMaybeReady s) = reconnectTimer s"
  "client (armInventoryReadyFallback s) = client s"
  "reconnectTimer (armInventoryReadyFallback s) = reconnectTimer s"
  by (simp_all add: setState_def onMaybeReady_def armInventoryReadyFallback_def Let_def)

lemma conn_markInventoryReady:
  "client (markInventoryReady reason s) = client s"
  "reconnectTimer (markInventoryReady reason s) = reconnectTimer s"
  by (simp_all add: markInventoryReady_def Let_def conn_basic)

lemma conn_handlers:
  "client (on_kick message s) = client s"
  "reconnectTimer (on_kick message s) = reconnectTimer s"
  "client (on_spawn s) = client s"
  "reconnectTimer (on_spawn s) = reconnectTimer s"
  "client (on_start_game s) = client s"
  "reconnectTimer (on_start_game s) = reconnectTimer s"
  "client (on_available_commands s) = client s"
  "reconnectTimer (on_available_commands s) = reconnectTimer s"
  "client (on_container_open windowId windowType s) = client s"
  "reconnectTimer (on_container_open windowId windowType s) = reconnectTimer s"
  "client (on_container_close closedId s) = client s"
  "reconnectTimer (on_container_close closedId s) = reconnectTimer s"
  "client (inventoryReadyFallbackTimer_callback s) = client s"
  "reconnectTimer (inventoryReadyFallbackTimer_callback s) = reconnectTimer s"
  by (simp_all add: on_kick_def on_spawn_def on_start_game_def
      on_available_commands_def on_container_open_def on_container_close_def
      inventoryReadyFallbackTimer_callback_def Let_def conn_basic conn_markInventoryReady)

lemma conn_sendCommand:
  "sendCommand queue_ok commandLine s = Inr s' \<Longrightarrow>
     client s' = client s \<and> reconnectTimer s' = reconnectTimer s"
  by (auto simp: sendCommand_def send_def Let_def conn_basic split: if_splits)

lemma conn_clickSlot:
  "clickSlot queue_ok windowId slotIndex s = Inr s' \<Longrightarrow>
     client s' = client s \<and> reconnectTimer s' = reconnectTimer s"
  by (auto simp: clickSlot_def send_def Let_def conn_basic split: if_splits option.splits)

lemma conn_maybeTakeDesiredSlot:
  "maybeTakeDesiredSlot queue_ok s = Inr s' \<Longrightarrow>
     client s' = client s \<and> reconnectTimer s' = reconnectTimer s"
  by (auto simp: maybeTakeDesiredSlot_def Let_def conn_basic
      dest!: conn_clickSlot split: if_splits option.splits)

lemma conn_tryTakeFromOpenContainer:
  "tryTakeFromOpenContainer queue_ok slotIndex s = Inr s' \<Longrightarrow>
     client s' = client s \<and> reconnectTimer s' = reconnectTimer s"
  by (auto simp: tryTakeFromOpenContainer_def Let_def conn_basic
      dest!: conn_clickSlot split: if_splits option.splits)

lemma conn_commandTimer_callback:
  "commandTimer_callback queue_ok s = Inr s' \<Longrightarrow>
     client s' = client s \<and> reconnectTimer s' = reconnectTimer s"
  by (auto simp: commandTimer_callback_def dest!: conn_sendCommand split: if_splits sum.splits)

lemma conn_lines:
  "line_take queue_ok n s = Inr s' \<Longrightarrow>
     client s' = client s \<and> reconnectTimer s' = reconnectTimer s"
  "line_cmd queue_ok cmd s = Inr s' \<Longrightarrow>
     client s' = client s \<and> reconnectTimer s' = reconnectTimer s"
  "line_tpa queue_ok player n s = Inr s' \<Longrightarrow>
     client s' = client s \<and> reconnectTimer s' = reconnectTimer s"
  by (auto simp: line_take_def line_cmd_def line_tpa_def Let_def
      dest!: conn_sendCommand conn_tryTakeFromOpenContainer split: if_splits option.splits)

lemma conn_on_inventory_content:
  "on_inventory_content queue_ok windowId containerId dynamicId input s = Inr s' \<Longrightarrow>
     client s' = client s \<and> reconnectTimer s' = reconnectTimer s"
  by (auto simp: on_inventory_content_def Let_def conn_basic conn_markInventoryReady
      dest!: conn_maybeTakeDesiredSlot split: if_splits)

lemma conn_on_inventory_slot:
  "on_inventory_slot queue_ok windowId slot' item s = Inr s' \<Longrightarrow>
     client s' = client s \<and> reconnectTimer s' = reconnectTimer s"
  by (auto simp: on_inventory_slot_def Let_def conn_basic conn_markInventoryReady
      dest!: conn_maybeTakeDesiredSlot split: if_splits sum.splits)

lemma conn_supervisor:
  assumes "client s \<longrightarrow> reconnectTimer s = None"
  shows "client (connectServer s) \<longrightarrow> reconnectTimer (connectServer s) = None"
    and "client (disconnectServer s) \<longrightarrow> reconnectTimer (disconnectServer s) = None"
    and "client (reconnectTimer_callback s) \<longrightarrow> reconnectTimer (reconnectTimer_callback s) = None"
    and "client (on_error random msg s) \<longrightarrow> reconnectTimer (on_error random msg s) = None"
    and "client (on_close random s) \<longrightarrow> reconnectTimer (on_close random s) = None"
  using assms
  by (auto simp: connectServer_def disconnectServer_def reconnectTimer_callback_def
      on_error_def on_close_def clearReconnectTimer_def scheduleReconnect_def setState_def
      Let_def split: if_splits)

lemma conn_step:
  assumes "client s \<longrightarrow> reconnectTimer s = None" and "step (queue_ok, random, e) s = Inr s'"
  shows "client s' \<longrightarrow> reconnectTimer s' = None"
proof (cases e)
  case (Line_take n)
  with assms conn_lines(1) [of queue_ok n s s'] show ?thesis by simp
next
  case (Line_tpa player n)
  with assms conn_lines(3) [of queue_ok player n s s'] show ?thesis by simp
next
  case (Line_cmd cmd)
  with assms conn_lines(2) [of queue_ok cmd s s'] show ?thesis by simp
next
  case (Client_inventory_content windowId containerId dynamicId input)
  with assms conn_on_inventory_content [of queue_ok windowId containerId dynamicId input s s']
  show ?thesis by simp
next
  case (Client_inventory_slot windowId slot' item)
  with assms conn_on_inventory_slot [of queue_ok windowId slot' item s s']
  show ?thesis by simp
next
  case Timeout_command
  with assms conn_commandTimer_callback [of queue_ok "s\<lparr>commandTimers := commandTimers s - 1\<rparr>" s']
  show ?thesis by (auto split: if_splits)
qed (use assms conn_supervisor [OF assms(1)] in \<open>auto simp: conn_handlers split: if_splits\<close>)

lemma conn_run:
  "client s \<longrightarrow> reconnectTimer s = None \<Longrightarrow> run evs s = Inr s' \<Longrightarrow>
     client s' \<longrightarrow> reconnectTimer s' = None"
proof (induction evs arbitrary: s)
  case Nil
  then show ?case by simp
next
  case (Cons x evs)
  obtain queue_ok random e where x: "x = (queue_ok, random, e)"
    by (cases x)
  from Cons.prems(2) obtain s1 where s1: "step x s = Inr s1" and rest: "run evs s1 = Inr s'"
    by (auto split: sum.splits)
  from conn_step [OF Cons.prems(1)] s1 x have "client s1 \<longrightarrow> reconnectTimer s1 = None"
    by simp
  from Cons.IH [OF this rest] show ?case .
qed

text \<open>
  C7, for \<open>scheduleReconnect\<close> with the line of \<open>wait\<close> repaired to
  \<^verbatim>\<open>delayMs ?? base\<close> (the line as shipped, \<^verbatim>\<open>delayMs ? ? base\<close>, does not parse; it is
  the line through which the override reaches the timer): in any state the script can
  reach with a client and with a connection wanted, a kick whose message contains
  "already online" in any letter case makes the \<^verbatim>\<open>close\<close> handler that follows start the
  reconnect timer with 30000 plus the jitter. The base delay of the backoff is not used:
  it is never 30000, whatever the attempt counter is. The kick handler stores the
  override and the \<^verbatim>\<open>close\<close> handler passes it on as the code stands; only the last step
  rests on the repair.
\<close>

theorem already_online_cooldown:
  assumes "run pre initial = Inr s" "client s" "wantConnected s"
    and "js_includes (toLowerCase msg) ''already online''"
    and "0 \<le> random" "random < 1"
  shows "run [(q, r, Client_kick (Some msg)), (q', random, Client_close)] s =
           Inr (on_close random (on_kick (Some msg) s)) \<and>
         (\<exists>j<500. reconnectTimer (on_close random (on_kick (Some msg) s)) = Some (30000 + j)) \<and>
         base (reconnectAttempt s) \<noteq> 30000"
proof -
  have "client initial \<longrightarrow> reconnectTimer initial = None"
    by (simp add: initial_def)
  from conn_run [OF this assms(1)] assms(2) have "reconnectTimer s = None"
    by simp
  then have "reconnectTimer (on_close random (on_kick (Some msg) s)) = Some (30000 + jitter random)"
    using assms(3,4)
    by (simp add: on_close_def on_kick_def Let_def setState_def scheduleReconnect_def)
  with jitter_bound [OF assms(5,6)] show ?thesis
    using base_not_30000 by auto
qed

theorem already_online_cooldown_witness:
  "run [(True, 0, Line_connect)] initial = Inr (connectServer initial) \<and>
   client (connectServer initial) \<and> wantConnected (connectServer initial) \<and>
   js_includes (toLowerCase ''You are Already Online!'') ''already online'' \<and>
   run [(True, 0, Client_kick (Some ''You are Already Online!'')), (True, 1 / 2, Client_close)]
     (connectServer initial) =
     Inr (on_close (1 / 2) (on_kick (Some ''You are Already Online!'') (connectServer initial))) \<and>
   reconnectTimer
     (on_close (1 / 2) (on_kick (Some ''You are Already Online!'') (connectServer initial))) =
     Some 30250"
proof -
  let ?s = "connectServer initial"
  have p: "run [(True, 0, Line_connect)] initial = Inr ?s"
    by simp
  have h: "client ?s" "wantConnected ?s"
    by (simp_all add: connectServer_def initial_def setState_def clearReconnectTimer_def)
  have t0: "reconnectTimer ?s = None"
    by (simp add: connectServer_def initial_def setState_def clearReconnectTimer_def)
  have m: "js_includes (toLowerCase ''You are Already Online!'') ''already online''"
    by (simp add: toLowerCase_def toLowerCase_char_def)
  have r: "(0::real) \<le> 1 / 2" "(1::real) / 2 < 1"
    by simp_all
  have j: "jitter (1 / 2) = 250"
    by (simp add: jitter_def)
  have t: "reconnectTimer
      (on_close (1 / 2) (on_kick (Some ''You are Already Online!'') ?s)) = Some 30250"
    using h t0 m by (simp add: on_close_def on_kick_def Let_def setState_def scheduleReconnect_def j)
  from already_online_cooldown [OF p h m r, of True 0 True]
  show ?thesis
    using p h m t by simp
qed

section \<open>Properties of the slot transaction\<close>

lemma findFirstEmpty_loop_None:
  "findFirstEmpty_loop i xs = None \<longleftrightarrow> (\<forall>x\<in>set xs. \<not> isEmptyItem x)"
  by (induction xs arbitrary: i) auto

lemma findFirstEmpty_loop_Some:
  "findFirstEmpty_loop i xs = Some k \<Longrightarrow>
     i \<le> k \<and> k - i < length xs \<and> isEmptyItem (xs ! (k - i)) \<and>
     (\<forall>j<k - i. \<not> isEmptyItem (xs ! j))"
proof (induction xs arbitrary: i)
  case Nil
  then show ?case by simp
next
  case (Cons x xs)
  show ?case
  proof (cases "isEmptyItem x")
    case True
    with Cons.prems show ?thesis by simp
  next
    case False
    with Cons.prems have rec: "findFirstEmpty_loop (Suc i) xs = Some k" by simp
    from Cons.IH [OF rec]
    have *: "Suc i \<le> k" "k - Suc i < length xs" "isEmptyItem (xs ! (k - Suc i))"
      "\<forall>j<k - Suc i. \<not> isEmptyItem (xs ! j)" by auto
    have eq: "k - i = Suc (k - Suc i)" using *(1) by arith
    show ?thesis
      using * False by (auto simp: eq nth_Cons split: nat.splits)
  qed
qed

lemma findFirstEmptyPlayerSlot_Some:
  assumes "playerInventoryItems s = Some slots" "findFirstEmptyPlayerSlot s = Some k"
  shows "k < length slots \<and> isEmptyItem (slots ! k) \<and> (\<forall>j<k. \<not> isEmptyItem (slots ! j))"
  using findFirstEmpty_loop_Some [of 0 slots k] assms
  by (simp add: findFirstEmptyPlayerSlot_def)

lemma findFirstEmptyPlayerSlot_None:
  "findFirstEmptyPlayerSlot s = None \<longleftrightarrow>
     (case playerInventoryItems s of
        None \<Rightarrow> True
      | Some slots \<Rightarrow> \<forall>x\<in>set slots. \<not> isEmptyItem x)"
  by (simp add: findFirstEmptyPlayerSlot_def findFirstEmpty_loop_None split: option.splits)

lemma clickSlot_empty_source:
  assumes "currentWindowItems s = None \<or>
           isEmptyItem (array_get (the (currentWindowItems s)) (nat slotIndex))"
  shows "clickSlot queue_ok windowId slotIndex s = Inr s"
  using assms by (auto simp: clickSlot_def split: option.splits)

lemma clickSlot_send:
  assumes "\<not> clickSent s" "state s = State_WAIT_CONTAINER_CONTENT"
    and "currentWindowItems s = Some windowItems"
    and "\<not> nullish (currentWindowId s)" "strict_eq windowId (currentWindowId s)"
    and "0 \<le> slotIndex" "client s"
    and "array_get windowItems (nat slotIndex) = Some item" "network_id item \<noteq> 0"
  shows "clickSlot True windowId slotIndex s =
     Inr (s\<lparr>state := State_CLICK_SENT, clickSent := True,
            sent := sent s @ [inventory_transaction
              (case findFirstEmptyPlayerSlot s of
                 Some toSlot \<Rightarrow> buildMoveToInventoryTransaction windowId slotIndex (int toSlot) item
               | None \<Rightarrow> buildNormalClickTransaction windowId slotIndex item)]\<rparr>)"
  using assms by (simp add: clickSlot_def send_def setState_def Let_def)

text \<open>
  C4: let \<open>clickSlot\<close> be called for the tracked window while its content is awaited, no
  click has been sent, the client exists and the transport takes the packet. If the source
  slot holds a non-empty item and the player inventory snapshot has an empty slot (id 0 or
  nothing), exactly one transaction with two actions is sent: the item leaves
  \<open>(windowId, slotIndex)\<close> and enters window 0 at the smallest empty index. If the snapshot
  is unknown or has no empty slot, the transaction has the one action with the item as old
  and new item at \<open>(windowId, slotIndex)\<close>. If the source slot is empty or beyond the
  array, or the window has no content yet, \<open>clickSlot\<close> returns with the state, and so
  the list of sent packets, untouched, in whatever state it is called.
\<close>

theorem clickSlot_transaction:
  assumes "\<not> clickSent s" "state s = State_WAIT_CONTAINER_CONTENT"
    and "currentWindowItems s = Some windowItems"
    and "\<not> nullish (currentWindowId s)" "strict_eq windowId (currentWindowId s)"
    and "0 \<le> slotIndex" "client s"
    and "array_get windowItems (nat slotIndex) = Some item" "network_id item \<noteq> 0"
  shows "(\<forall>slots. playerInventoryItems s = Some slots \<and> (\<exists>x\<in>set slots. isEmptyItem x) \<longrightarrow>
            (\<exists>k<length slots. isEmptyItem (slots ! k) \<and> (\<forall>j<k. \<not> isEmptyItem (slots ! j)) \<and>
               clickSlot True windowId slotIndex s =
                 Inr (s\<lparr>state := State_CLICK_SENT, clickSent := True,
                        sent := sent s @ [inventory_transaction
                          \<lparr>legacy_request_id = 0, transaction_type = ''normal'',
                           actions =
                             [\<lparr>source_type = ''container'', inventory_id = windowId,
                               slot = slotIndex, old_item = item, new_item = EMPTY_ITEM\<rparr>,
                              \<lparr>source_type = ''container'', inventory_id = Number (Finite 0),
                               slot = int k, old_item = EMPTY_ITEM, new_item = item\<rparr>]\<rparr>]\<rparr>))) \<and>
         ((playerInventoryItems s = None \<or>
           (\<exists>slots. playerInventoryItems s = Some slots \<and> (\<forall>x\<in>set slots. \<not> isEmptyItem x))) \<longrightarrow>
            clickSlot True windowId slotIndex s =
              Inr (s\<lparr>state := State_CLICK_SENT, clickSent := True,
                     sent := sent s @ [inventory_transaction
                       \<lparr>legacy_request_id = 0, transaction_type = ''normal'',
                        actions =
                          [\<lparr>source_type = ''container'', inventory_id = windowId,
                            slot = slotIndex, old_item = item, new_item = item\<rparr>]\<rparr>]\<rparr>)) \<and>
         (\<forall>queue_ok w i t.
            currentWindowItems t = None \<or>
            isEmptyItem (array_get (the (currentWindowItems t)) (nat i)) \<longrightarrow>
            clickSlot queue_ok w i t = Inr t)"
proof (intro conjI allI impI)
  fix slots
  assume a: "playerInventoryItems s = Some slots \<and> (\<exists>x\<in>set slots. isEmptyItem x)"
  then have "findFirstEmptyPlayerSlot s \<noteq> None"
    by (simp add: findFirstEmptyPlayerSlot_None)
  then obtain k where k: "findFirstEmptyPlayerSlot s = Some k"
    by auto
  from findFirstEmptyPlayerSlot_Some [OF _ k] a
  have first: "k < length slots" "isEmptyItem (slots ! k)" "\<forall>j<k. \<not> isEmptyItem (slots ! j)"
    by auto
  have "clickSlot True windowId slotIndex s =
      Inr (s\<lparr>state := State_CLICK_SENT, clickSent := True,
             sent := sent s @ [inventory_transaction
               (buildMoveToInventoryTransaction windowId slotIndex (int k) item)]\<rparr>)"
    using clickSlot_send [OF assms] k by simp
  with first show "\<exists>k<length slots. isEmptyItem (slots ! k) \<and> (\<forall>j<k. \<not> isEmptyItem (slots ! j)) \<and>
      clickSlot True windowId slotIndex s =
        Inr (s\<lparr>state := State_CLICK_SENT, clickSent := True,
               sent := sent s @ [inventory_transaction
                 \<lparr>legacy_request_id = 0, transaction_type = ''normal'',
                  actions =
                    [\<lparr>source_type = ''container'', inventory_id = windowId,
                      slot = slotIndex, old_item = item, new_item = EMPTY_ITEM\<rparr>,
                     \<lparr>source_type = ''container'', inventory_id = Number (Finite 0),
                      slot = int k, old_item = EMPTY_ITEM, new_item = item\<rparr>]\<rparr>]\<rparr>)"
    by (auto simp: buildMoveToInventoryTransaction_def PLAYER_INVENTORY_WINDOW_ID_def)
next
  assume "playerInventoryItems s = None \<or>
    (\<exists>slots. playerInventoryItems s = Some slots \<and> (\<forall>x\<in>set slots. \<not> isEmptyItem x))"
  then have "findFirstEmptyPlayerSlot s = None"
    by (auto simp: findFirstEmptyPlayerSlot_None)
  then show "clickSlot True windowId slotIndex s =
      Inr (s\<lparr>state := State_CLICK_SENT, clickSent := True,
             sent := sent s @ [inventory_transaction
               \<lparr>legacy_request_id = 0, transaction_type = ''normal'',
                actions =
                  [\<lparr>source_type = ''container'', inventory_id = windowId,
                    slot = slotIndex, old_item = item, new_item = item\<rparr>]\<rparr>]\<rparr>)"
    using clickSlot_send [OF assms] by (simp add: buildNormalClickTransaction_def)
next
  fix queue_ok w i and t :: script
  assume "currentWindowItems t = None \<or>
    isEmptyItem (array_get (the (currentWindowItems t)) (nat i))"
  then show "clickSlot queue_ok w i t = Inr t"
    by (rule clickSlot_empty_source)
qed

text \<open>
  The witness: window 12 holds item 7 in slot 5, the player inventory snapshot has its
  first empty slot at index 3 (an item of id 0; index 4 holds nothing at all). The
  transaction moves the item from slot 5 of window 12 to slot 3 of window 0; a click on the
  empty slot 2 sends nothing.
\<close>

theorem clickSlot_transaction_witness:
  "(let item = \<lparr>network_id = 7, count = Some 1, metadata = None, stack_id = None\<rparr>;
        held = \<lparr>network_id = 4, count = Some 64, metadata = None, stack_id = None\<rparr>;
        s = (connectServer initial)
              \<lparr>state := State_WAIT_CONTAINER_CONTENT, currentWindowId := Number (Finite 12),
               currentWindowItems := Some [None, None, None, None, None, Some item],
               playerInventoryItems := Some [Some held, Some held, Some held, Some EMPTY_ITEM, None]\<rparr>
    in \<not> clickSent s \<and> state s = State_WAIT_CONTAINER_CONTENT \<and> client s \<and>
       clickSlot True (Number (Finite 12)) 5 s =
         Inr (s\<lparr>state := State_CLICK_SENT, clickSent := True,
                sent := [inventory_transaction
                  \<lparr>legacy_request_id = 0, transaction_type = ''normal'',
                   actions =
                     [\<lparr>source_type = ''container'', inventory_id = Number (Finite 12),
                       slot = 5, old_item = item, new_item = EMPTY_ITEM\<rparr>,
                      \<lparr>source_type = ''container'', inventory_id = Number (Finite 0),
                       slot = 3, old_item = EMPTY_ITEM, new_item = item\<rparr>]\<rparr>]\<rparr>) \<and>
       clickSlot True (Number (Finite 12)) 2 s = Inr s)"
proof -
  define item where "item = \<lparr>network_id = 7, count = Some 1, metadata = None, stack_id = None\<rparr>"
  define held where "held = \<lparr>network_id = 4, count = Some 64, metadata = None, stack_id = None\<rparr>"
  define slots where "slots = [Some held, Some held, Some held, Some EMPTY_ITEM, None]"
  define s where "s = (connectServer initial)
              \<lparr>state := State_WAIT_CONTAINER_CONTENT, currentWindowId := Number (Finite 12),
               currentWindowItems := Some [None, None, None, None, None, Some item],
               playerInventoryItems := Some slots\<rparr>"
  have h: "\<not> clickSent s" "state s = State_WAIT_CONTAINER_CONTENT"
    "currentWindowItems s = Some [None, None, None, None, None, Some item]"
    "\<not> nullish (currentWindowId s)" "strict_eq (Number (Finite 12)) (currentWindowId s)"
    "(0::int) \<le> 5" "client s"
    "array_get [None, None, None, None, None, Some item] (nat 5) = Some item"
    "network_id item \<noteq> 0"
    by (simp_all add: s_def item_def connectServer_def initial_def setState_def
        clearReconnectTimer_def array_get_def)
  have p: "playerInventoryItems s = Some slots \<and> (\<exists>x\<in>set slots. isEmptyItem x)"
    by (simp add: s_def slots_def)
  have e: "isEmptyItem (array_get (the (currentWindowItems s)) (nat 2))"
    by (simp add: s_def array_get_def)
  have sent0: "sent s = []"
    by (simp add: s_def connectServer_def initial_def setState_def clearReconnectTimer_def)
  note inst = clickSlot_transaction [OF h]
  from inst p obtain k where k: "k < length slots" "isEmptyItem (slots ! k)"
    "\<forall>j<k. \<not> isEmptyItem (slots ! j)"
    and click: "clickSlot True (Number (Finite 12)) 5 s =
      Inr (s\<lparr>state := State_CLICK_SENT, clickSent := True,
             sent := sent s @ [inventory_transaction
               \<lparr>legacy_request_id = 0, transaction_type = ''normal'',
                actions =
                  [\<lparr>source_type = ''container'', inventory_id = Number (Finite 12),
                    slot = 5, old_item = item, new_item = EMPTY_ITEM\<rparr>,
                   \<lparr>source_type = ''container'', inventory_id = Number (Finite 0),
                    slot = int k, old_item = EMPTY_ITEM, new_item = item\<rparr>]\<rparr>]\<rparr>)"
    by blast
  have "k = 3"
  proof -
    have "k = 0 \<or> k = 1 \<or> k = 2 \<or> k = 3 \<or> k = 4"
      using k(1) by (auto simp: slots_def)
    moreover have "\<not> isEmptyItem (slots ! 0)" "\<not> isEmptyItem (slots ! 1)"
      "\<not> isEmptyItem (slots ! 2)" "isEmptyItem (slots ! 3)"
      by (simp_all add: slots_def held_def EMPTY_ITEM_def)
    ultimately show ?thesis
      using k(2,3) by auto
  qed
  moreover from inst e have "clickSlot True (Number (Finite 12)) 2 s = Inr s"
    by blast
  ultimately show ?thesis
    using h click sent0
    unfolding Let_def s_def [symmetric] item_def [symmetric] held_def [symmetric] slots_def [symmetric]
    by simp
qed

section \<open>Properties of the attempt counter\<close>

lemma attempt_basic:
  "reconnectAttempt (setState next s) = reconnectAttempt s"
  "reconnectAttempt (clearReconnectTimer s) = reconnectAttempt s"
  "reconnectAttempt (scheduleReconnect random reason delayMs s) = reconnectAttempt s"
  "reconnectAttempt (onMaybeReady s) = reconnectAttempt s"
  "reconnectAttempt (armInventoryReadyFallback s) = reconnectAttempt s"
  by (simp_all add: setState_def clearReconnectTimer_def scheduleReconnect_def onMaybeReady_def
      armInventoryReadyFallback_def Let_def)

lemma attempt_markInventoryReady:
  "reconnectAttempt (markInventoryReady reason s) = reconnectAttempt s"
  by (simp add: markInventoryReady_def Let_def attempt_basic)

lemma attempt_connect:
  "reconnectAttempt (connectServer s) = reconnectAttempt s"
  "reconnectAttempt (disconnectServer s) = reconnectAttempt s"
  "reconnectAttempt (reconnectTimer_callback s) = reconnectAttempt s + 1"
  by (simp_all add: connectServer_def disconnectServer_def reconnectTimer_callback_def
      attempt_basic)

lemma attempt_handlers:
  "reconnectAttempt (on_error random msg s) = reconnectAttempt s"
  "reconnectAttempt (on_kick message s) = reconnectAttempt s"
  "reconnectAttempt (on_close random s) = reconnectAttempt s"
  "reconnectAttempt (on_spawn s) = reconnectAttempt s"
  "reconnectAttempt (on_start_game s) = reconnectAttempt s"
  "reconnectAttempt (on_available_commands s) = reconnectAttempt s"
  "reconnectAttempt (on_container_open windowId windowType s) = reconnectAttempt s"
  "reconnectAttempt (on_container_close closedId s) = reconnectAttempt s"
  "reconnectAttempt (inventoryReadyFallbackTimer_callback s) = reconnectAttempt s"
  by (simp_all add: on_error_def on_kick_def on_close_def on_spawn_def on_start_game_def
      on_available_commands_def on_container_open_def on_container_close_def
      inventoryReadyFallbackTimer_callback_def Let_def attempt_basic attempt_markInventoryReady)

lemma attempt_sendCommand:
  "sendCommand queue_ok commandLine s = Inr s' \<Longrightarrow> reconnectAttempt s' = reconnectAttempt s"
  by (auto simp: sendCommand_def send_def Let_def attempt_basic split: if_splits)

lemma attempt_clickSlot:
  "clickSlot queue_ok windowId slotIndex s = Inr s' \<Longrightarrow> reconnectAttempt s' = reconnectAttempt s"
  by (auto simp: clickSlot_def send_def Let_def attempt_basic split: if_splits option.splits)

lemma attempt_maybeTakeDesiredSlot:
  "maybeTakeDesiredSlot queue_ok s = Inr s' \<Longrightarrow> reconnectAttempt s' = reconnectAttempt s"
  by (auto simp: maybeTakeDesiredSlot_def Let_def attempt_basic
      dest!: attempt_clickSlot split: if_splits option.splits)

lemma attempt_tryTakeFromOpenContainer:
  "tryTakeFromOpenContainer queue_ok slotIndex s = Inr s' \<Longrightarrow>
     reconnectAttempt s' = reconnectAttempt s"
  by (auto simp: tryTakeFromOpenContainer_def Let_def attempt_basic
      dest!: attempt_clickSlot split: if_splits option.splits)

lemma attempt_commandTimer_callback:
  "commandTimer_callback queue_ok s = Inr s' \<Longrightarrow> reconnectAttempt s' = reconnectAttempt s"
  by (auto simp: commandTimer_callback_def dest!: attempt_sendCommand split: if_splits sum.splits)

lemma attempt_lines:
  "line_take queue_ok n s = Inr s' \<Longrightarrow> reconnectAttempt s' = reconnectAttempt s"
  "line_cmd queue_ok cmd s = Inr s' \<Longrightarrow> reconnectAttempt s' = reconnectAttempt s"
  "line_tpa queue_ok player n s = Inr s' \<Longrightarrow> reconnectAttempt s' = reconnectAttempt s"
  by (auto simp: line_take_def line_cmd_def line_tpa_def Let_def
      dest!: attempt_sendCommand attempt_tryTakeFromOpenContainer split: if_splits option.splits)

lemma attempt_on_inventory_content:
  "on_inventory_content queue_ok windowId containerId dynamicId input s = Inr s' \<Longrightarrow>
     reconnectAttempt s' = reconnectAttempt s"
  by (auto simp: on_inventory_content_def Let_def attempt_basic attempt_markInventoryReady
      dest!: attempt_maybeTakeDesiredSlot split: if_splits)

lemma attempt_on_inventory_slot:
  "on_inventory_slot queue_ok windowId slot' item s = Inr s' \<Longrightarrow>
     reconnectAttempt s' = reconnectAttempt s"
  by (auto simp: on_inventory_slot_def Let_def attempt_basic attempt_markInventoryReady
      dest!: attempt_maybeTakeDesiredSlot split: if_splits sum.splits)

lemma attempt_step:
  "step (queue_ok, random, e) s = Inr s' \<Longrightarrow>
     reconnectAttempt s' =
       (if e = Timeout_reconnect \<and> reconnectTimer s \<noteq> None then reconnectAttempt s + 1
        else reconnectAttempt s)"
  by (cases e)
     (auto simp: attempt_connect attempt_handlers
        dest: attempt_lines attempt_on_inventory_content attempt_on_inventory_slot
          attempt_commandTimer_callback split: if_splits)

lemma attempt_run:
  "run evs s = Inr s' \<Longrightarrow> reconnectAttempt s \<le> reconnectAttempt s'"
proof (induction evs arbitrary: s)
  case Nil
  then show ?case by simp
next
  case (Cons x evs)
  obtain queue_ok random e where x: "x = (queue_ok, random, e)"
    by (cases x)
  from Cons.prems obtain s1 where s1: "step x s = Inr s1" and rest: "run evs s1 = Inr s'"
    by (auto split: sum.splits)
  from attempt_step [of queue_ok random e s s1] s1 x
  have "reconnectAttempt s \<le> reconnectAttempt s1"
    by (simp split: if_splits)
  with Cons.IH [OF rest] show ?case
    by simp
qed

text \<open>
  C6 (as stated): an explicit disconnect by the user resets the attempt counter. No
  assignment in the script resets it. Here the first connection closes, the reconnect timer
  fires (the counter becomes 1) and the user disconnects the second connection, which then
  closes: the counter is still 1.
\<close>

theorem reconnectAttempt_reset_counterexample:
  "reconnectAttempt
     (on_close 0 (disconnectServer (reconnectTimer_callback (on_close 0 (connectServer initial)))))
   = 1"
  by (simp add: attempt_handlers attempt_connect initial_def)

text \<open>
  C6 (amended): the attempt counter grows by one exactly when a pending reconnect timer
  fires, and no other event changes it; so no run of events ever lowers it. In particular
  an explicit disconnect leaves it as it is.
\<close>

theorem reconnectAttempt_lifecycle:
  "(\<forall>x s'. step x s = Inr s' \<longrightarrow>
      reconnectAttempt s' =
        (if snd (snd x) = Timeout_reconnect \<and> reconnectTimer s \<noteq> None
         then reconnectAttempt s + 1 else reconnectAttempt s)) \<and>
   (\<forall>evs s'. run evs s = Inr s' \<longrightarrow> reconnectAttempt s \<le> reconnectAttempt s') \<and>
   reconnectAttempt (disconnectServer s) = reconnectAttempt s"
proof (intro conjI allI impI)
  fix x s'
  assume "step x s = Inr s'"
  then show "reconnectAttempt s' =
      (if snd (snd x) = Timeout_reconnect \<and> reconnectTimer s \<noteq> None
       then reconnectAttempt s + 1 else reconnectAttempt s)"
    using attempt_step [of "fst x" "fst (snd x)" "snd (snd x)" s s'] by simp
next
  fix evs s'
  assume "run evs s = Inr s'"
  then show "reconnectAttempt s \<le> reconnectAttempt s'"
    by (rule attempt_run)
next
  show "reconnectAttempt (disconnectServer s) = reconnectAttempt s"
    by (rule attempt_connect)
qed

theorem reconnectAttempt_lifecycle_witness:
  "step (True, 0, Timeout_reconnect) (on_close 0 (connectServer initial)) =
     Inr (reconnectTimer_callback (on_close 0 (connectServer initial))) \<and>
   reconnectTimer (on_close 0 (connectServer initial)) = Some 2000 \<and>
   reconnectAttempt (on_close 0 (connectServer initial)) = 0 \<and>
   reconnectAttempt (reconnectTimer_callback (on_close 0 (connectServer initial))) = 1 \<and>
   reconnectAttempt (disconnectServer (on_close 0 (connectServer initial))) = 0"
proof -
  let ?s = "on_close 0 (connectServer initial)"
  have t: "reconnectTimer ?s = Some 2000"
    by (simp add: on_close_def connectServer_def initial_def setState_def
        clearReconnectTimer_def scheduleReconnect_def Let_def jitter_def base_def
        RECONNECT_MAX_MS_def RECONNECT_BASE_MS_def)
  have a: "reconnectAttempt ?s = 0"
    by (simp add: attempt_handlers attempt_connect initial_def)
  have st: "step (True, 0, Timeout_reconnect) ?s = Inr (reconnectTimer_callback ?s)"
    using t by simp
  note L = reconnectAttempt_lifecycle [of ?s]
  have "reconnectAttempt (reconnectTimer_callback ?s) = 1"
    using L [THEN conjunct1, rule_format, OF st] t a by simp
  moreover have "reconnectAttempt (disconnectServer ?s) = 0"
    using L [THEN conjunct2, THEN conjunct2] a by simp
  ultimately have "reconnectAttempt (reconnectTimer_callback ?s) = 1"
    and "reconnectAttempt (disconnectServer ?s) = 0"
    by simp_all
  with st t a show ?thesis
    by simp
qed

section \<open>At most one slot interaction between resets\<close>


























section \<open>Properties of the readiness gate\<close>

























lemma ready_basic:
  "inventoryReady (setState next s) = inventoryReady s"
  "inventoryReady (clearReconnectTimer s) = inventoryReady s"
  "inventoryReady (scheduleReconnect random reason delayMs s) = inventoryReady s"
  "inventoryReady (onMaybeReady s) = inventoryReady s"
  "inventoryReady (armInventoryReadyFallback s) = inventoryReady s"
  by (simp_all add: setState_def clearReconnectTimer_def scheduleReconnect_def onMaybeReady_def
      armInventoryReadyFallback_def Let_def)

lemma ready_markInventoryReady: "inventoryReady (markInventoryReady reason s)"
  by (simp add: markInventoryReady_def Let_def ready_basic)

lemma ready_connect:
  "inventoryReady (connectServer s) = inventoryReady s"
  "inventoryReady (disconnectServer s) = inventoryReady s"
  "inventoryReady (reconnectTimer_callback s) = inventoryReady s"
  by (simp_all add: connectServer_def disconnectServer_def reconnectTimer_callback_def
      ready_basic)

lemma ready_handlers:
  "inventoryReady (on_error random msg s) = inventoryReady s"
  "inventoryReady (on_kick message s) = inventoryReady s"
  "inventoryReady (on_spawn s) = inventoryReady s"
  "inventoryReady (on_start_game s)"
  "inventoryReady (on_available_commands s) = inventoryReady s"
  "inventoryReady (on_container_open windowId windowType s) = inventoryReady s"
  "inventoryReady (on_container_close closedId s) = inventoryReady s"
  "inventoryReady s \<Longrightarrow> inventoryReady (inventoryReadyFallbackTimer_callback s)"
  by (simp_all add: on_error_def on_kick_def on_spawn_def on_start_game_def
      on_available_commands_def on_container_open_def on_container_close_def
      inventoryReadyFallbackTimer_callback_def Let_def ready_basic ready_markInventoryReady)

lemma ready_sendCommand:
  "sendCommand queue_ok commandLine s = Inr s' \<Longrightarrow> inventoryReady s' = inventoryReady s"
  by (auto simp: sendCommand_def send_def Let_def ready_basic split: if_splits)

lemma ready_clickSlot:
  "clickSlot queue_ok windowId slotIndex s = Inr s' \<Longrightarrow> inventoryReady s' = inventoryReady s"
  by (auto simp: clickSlot_def send_def Let_def ready_basic split: if_splits option.splits)

lemma ready_maybeTakeDesiredSlot:
  "maybeTakeDesiredSlot queue_ok s = Inr s' \<Longrightarrow> inventoryReady s' = inventoryReady s"
  by (auto simp: maybeTakeDesiredSlot_def Let_def ready_basic
      dest!: ready_clickSlot split: if_splits option.splits)

lemma ready_tryTakeFromOpenContainer:
  "tryTakeFromOpenContainer queue_ok slotIndex s = Inr s' \<Longrightarrow>
     inventoryReady s' = inventoryReady s"
  by (auto simp: tryTakeFromOpenContainer_def Let_def ready_basic
      dest!: ready_clickSlot split: if_splits option.splits)

lemma ready_commandTimer_callback:
  "commandTimer_callback queue_ok s = Inr s' \<Longrightarrow> inventoryReady s' = inventoryReady s"
  by (auto simp: commandTimer_callback_def dest!: ready_sendCommand split: if_splits sum.splits)

lemma ready_lines:
  "line_take queue_ok n s = Inr s' \<Longrightarrow> inventoryReady s' = inventoryReady s"
  "line_cmd queue_ok cmd s = Inr s' \<Longrightarrow> inventoryReady s' = inventoryReady s"
  "line_tpa queue_ok player n s = Inr s' \<Longrightarrow> inventoryReady s' = inventoryReady s"
  by (auto simp: line_take_def line_cmd_def line_tpa_def Let_def
      dest!: ready_sendCommand ready_tryTakeFromOpenContainer split: if_splits option.splits)

lemma ready_on_inventory_content:
  "on_inventory_content queue_ok windowId containerId dynamicId input s = Inr s' \<Longrightarrow>
     inventoryReady s \<Longrightarrow> inventoryReady s'"
  by (auto simp: on_inventory_content_def Let_def ready_basic ready_markInventoryReady
      dest!: ready_maybeTakeDesiredSlot split: if_splits)

lemma ready_on_inventory_slot:
  "on_inventory_slot queue_ok windowId slot' item s = Inr s' \<Longrightarrow>
     inventoryReady s \<Longrightarrow> inventoryReady s'"
  by (auto simp: on_inventory_slot_def Let_def ready_basic ready_markInventoryReady
      dest!: ready_maybeTakeDesiredSlot split: if_splits sum.splits)

lemma ready_step:
  "step (queue_ok, random, e) s = Inr s' \<Longrightarrow> e \<noteq> Client_close \<Longrightarrow>
     inventoryReady s \<Longrightarrow> inventoryReady s'"
  by (cases e)
     (auto simp: ready_connect ready_handlers
        dest: ready_lines ready_on_inventory_content ready_on_inventory_slot
          ready_commandTimer_callback split: if_splits)

lemma ready_run:
  "run evs s = Inr s' \<Longrightarrow> \<forall>x\<in>set evs. snd (snd x) \<noteq> Client_close \<Longrightarrow>
     inventoryReady s \<Longrightarrow> inventoryReady s'"
proof (induction evs arbitrary: s)
  case Nil
  then show ?case by simp
next
  case (Cons x evs)
  obtain queue_ok random e where x: "x = (queue_ok, random, e)"
    by (cases x)
  from Cons.prems(1) obtain s1 where s1: "step x s = Inr s1" and rest: "run evs s1 = Inr s'"
    by (auto split: sum.splits)
  from ready_step [of queue_ok random e s s1] s1 x Cons.prems(2,3)
  have "inventoryReady s1"
    by simp
  with Cons.IH [OF rest] Cons.prems(2) show ?case
    by simp
qed








end
